theory Spec2Isabelle
  imports Main
begin

section \<open>The parallel orchestration strategy\<close>

text \<open>
  A shallow embedding of \<^verbatim>\<open>ParallelOrchestrationStrategy\<close> (package strategies) and of
  the retry endpoint of the orchestration handler. The strategy keeps three Go maps keyed
  by execution ID; they are modelled as partial maps. Everything the strategy reaches
  through an interface or a library (the executor, the wall clock, the UUID generator) is
  a field of the record \<open>Collaborators\<close>: a function over an abstract world \<open>'w\<close> that
  returns its result together with the next world, so that an executor backed by storage
  and a clock that moves between two readings are both covered. Logging is not modelled.
  The embedding is sequential: it describes what one call does to the state it finds.
\<close>

subsection \<open>Time values\<close>

text \<open>
  A \<^verbatim>\<open>time.Time\<close> is the number of nanoseconds since Go's zero time (January 1 of year 1,
  00:00 UTC), read as a wall-clock instant in UTC; a \<^verbatim>\<open>time.Duration\<close> is a count of
  nanoseconds held in an int64. \<^verbatim>\<open>Time.Sub\<close> saturates at the bounds of int64.
\<close>

type_synonym Time = int
type_synonym Duration = int

definition Hour :: Duration where
  "Hour = 3600000000000"

definition Day :: Duration where
  "Day = 24 * Hour"

definition maxDuration :: Duration where
  "maxDuration = 2 ^ 63 - 1"

definition minDuration :: Duration where
  "minDuration = - (2 ^ 63)"

definition time_IsZero :: "Time \<Rightarrow> bool" where
  "time_IsZero t \<longleftrightarrow> t = 0"

definition time_Before :: "Time \<Rightarrow> Time \<Rightarrow> bool" where
  "time_Before t u \<longleftrightarrow> t < u"

definition time_Add :: "Time \<Rightarrow> Duration \<Rightarrow> Time" where
  "time_Add t d = t + d"

definition time_Sub :: "Time \<Rightarrow> Time \<Rightarrow> Duration" where
  "time_Sub t u =
     (if t - u < minDuration then minDuration
      else if maxDuration < t - u then maxDuration
      else t - u)"

datatype Weekday = Sunday | Monday | Tuesday | Wednesday | Thursday | Friday | Saturday

fun weekdayNum :: "Weekday \<Rightarrow> nat" where
  "weekdayNum Sunday = 0"
| "weekdayNum Monday = 1"
| "weekdayNum Tuesday = 2"
| "weekdayNum Wednesday = 3"
| "weekdayNum Thursday = 4"
| "weekdayNum Friday = 5"
| "weekdayNum Saturday = 6"

definition weekdayOf :: "nat \<Rightarrow> Weekday" where
  "weekdayOf n =
     (if n mod 7 = 0 then Sunday else if n mod 7 = 1 then Monday
      else if n mod 7 = 2 then Tuesday else if n mod 7 = 3 then Wednesday
      else if n mod 7 = 4 then Thursday else if n mod 7 = 5 then Friday
      else Saturday)"

text \<open>The zero time is a Monday.\<close>

definition time_Weekday :: "Time \<Rightarrow> Weekday" where
  "time_Weekday t = weekdayOf (nat ((t div Day + 1) mod 7))"

text \<open>\<^verbatim>\<open>t.AddDate(0, 0, days)\<close> in UTC, where every day has 24 hours.\<close>

definition time_AddDate_days :: "Time \<Rightarrow> int \<Rightarrow> Time" where
  "time_AddDate_days t days = t + days * Day"

subsection \<open>Operations, strategy spec, errors\<close>

record RuntimeOperation =
  ID :: string
  MaintenanceWindowBegin :: Time
  MaintenanceWindowEnd :: Time
  MaintenanceDays :: "Weekday list"

text \<open>
  \<^verbatim>\<open>strategy.Schedule\<close> has the two named values; the \<^verbatim>\<open>switch\<close> in
  \<^verbatim>\<open>updateMaintenanceWindow\<close> has no default branch, so any other value falls through it.
\<close>

datatype ScheduleType = Immediate | MaintenanceWindow | OtherSchedule

record StrategySpec =
  Schedule :: ScheduleType
  Workers :: int

text \<open>
  A Go \<^verbatim>\<open>error\<close>; \<^verbatim>\<open>nil\<close> is \<open>None\<close> of \<open>error option\<close>. An error is created with a
  kind (what \<^verbatim>\<open>dberr.IsNotFound\<close> and \<^verbatim>\<open>apiErrors.IsBadRequest\<close> tell apart) and a
  message, or wraps another error (\<^verbatim>\<open>errors.Wrap\<close>).
\<close>

datatype errorKind = NotFound | BadRequest | Other

datatype error = Err errorKind string | Wrap error string

text \<open>
  Modelled from the spec: \<^verbatim>\<open>orchestration.NextAvailableDayDiff\<close> and
  \<^verbatim>\<open>orchestration.ConvertSliceOfDaysToMap\<close>, which are not among the sources. The spec
  says: the next allowed weekday uses the smallest positive day offset; for an empty set
  of days the behaviour is undefined (the model returns 0 there).
\<close>

definition ConvertSliceOfDaysToMap :: "Weekday list \<Rightarrow> Weekday set" where
  "ConvertSliceOfDaysToMap days = set days"

definition NextAvailableDayDiff :: "Weekday \<Rightarrow> Weekday set \<Rightarrow> int" where
  "NextAvailableDayDiff currentDay availableDays =
     (case find (\<lambda>i. weekdayOf (weekdayNum currentDay + i) \<in> availableDays) [1 ..< 8] of
        Some i \<Rightarrow> int i
      | None \<Rightarrow> 0)"

subsection \<open>Collaborators\<close>

text \<open>
  \<^verbatim>\<open>executor.Execute\<close> returns \<^verbatim>\<open>(when, err)\<close> or panics.
\<close>

datatype ExecuteOutcome = Returns Duration "error option" | Panics string

record 'w Collaborators =
  time_Now :: "'w \<Rightarrow> Time \<times> 'w"
  uuid_New :: "'w \<Rightarrow> string \<times> 'w"
  executor_Execute :: "string \<Rightarrow> 'w \<Rightarrow> ExecuteOutcome \<times> 'w"
  executor_Reschedule :: "string \<Rightarrow> Time \<Rightarrow> Time \<Rightarrow> 'w \<Rightarrow> error option \<times> 'w"

subsection \<open>Memory\<close>

text \<open>
  The queue holds pointers to operations, and \<^verbatim>\<open>updateMaintenanceWindow\<close> writes through
  the pointer it is given, so operations live in an explicit store. \<open>SliceElem a i\<close> is
  the address of element \<open>i\<close> of the backing array \<open>a\<close> of a slice
  (\<^verbatim>\<open>&operations[i]\<close>); \<open>RangeVar e k\<close> is the address of a variable \<^verbatim>\<open>op\<close> declared by
  the \<^verbatim>\<open>range\<close> loop of the call of \<^verbatim>\<open>Execute\<close> that allocated execution ID \<open>e\<close>.
\<close>

datatype addr = SliceElem nat nat | RangeVar string nat

type_synonym heap = "addr \<Rightarrow> RuntimeOperation"

record OperationSlice =
  array :: nat
  count :: nat

subsection \<open>The delaying queue\<close>

text \<open>
  \<^verbatim>\<open>workqueue.DelayingInterface\<close> as the strategy uses it: \<open>scheduled\<close> lists the
  accepted \<^verbatim>\<open>AddAfter\<close> requests in order, each an item (a pointer) with its delay;
  \<open>finished\<close> lists the items marked \<^verbatim>\<open>Done\<close>. A queue that is shutting down ignores
  \<^verbatim>\<open>AddAfter\<close>. The coalescing of equal items inside the library is not modelled.
\<close>

record DelayingQueue =
  scheduled :: "(addr \<times> Duration) list"
  finished :: "addr list"
  shuttingDown :: bool

definition NewDelayingQueue :: DelayingQueue where
  "NewDelayingQueue = \<lparr>scheduled = [], finished = [], shuttingDown = False\<rparr>"

definition dq_AddAfter :: "DelayingQueue \<Rightarrow> addr \<Rightarrow> Duration \<Rightarrow> DelayingQueue" where
  "dq_AddAfter q item duration =
     (if shuttingDown q then q else q\<lparr>scheduled := scheduled q @ [(item, duration)]\<rparr>)"

definition dq_Done :: "DelayingQueue \<Rightarrow> addr \<Rightarrow> DelayingQueue" where
  "dq_Done q item = q\<lparr>finished := finished q @ [item]\<rparr>"

definition dq_ShutDown :: "DelayingQueue \<Rightarrow> DelayingQueue" where
  "dq_ShutDown q = q\<lparr>shuttingDown := True\<rparr>"

subsection \<open>The strategy\<close>

record ParallelOrchestrationStrategy =
  dq :: "string \<rightharpoonup> DelayingQueue"
  wg :: "string \<rightharpoonup> nat"
  rescheduleDelay :: Duration
  processingNum :: "string \<rightharpoonup> int"

text \<open>
  Calling a method on the nil interface or nil pointer that a Go map returns for a missing
  key panics; outside a \<^verbatim>\<open>recover\<close> this ends the program.
\<close>

datatype fault = NilDereference

text \<open>Reading a missing key of \<^verbatim>\<open>map[string]int\<close> gives 0.\<close>

definition processingNumOf :: "ParallelOrchestrationStrategy \<Rightarrow> string \<Rightarrow> int" where
  "processingNumOf p execID = (case processingNum p execID of None \<Rightarrow> 0 | Some n \<Rightarrow> n)"

definition NewParallelOrchestrationStrategy :: "Duration \<Rightarrow> ParallelOrchestrationStrategy" where
  "NewParallelOrchestrationStrategy delay =
     (let strategy = \<lparr>dq = Map.empty, wg = Map.empty, rescheduleDelay = delay,
                      processingNum = Map.empty\<rparr>
      in if rescheduleDelay strategy \<le> 0
         then strategy\<lparr>rescheduleDelay := 24 * Hour\<rparr>
         else strategy)"

text \<open>\<^verbatim>\<open>p.dq[execID].m(...)\<close> for a queue method \<open>m\<close> that updates the queue.\<close>

definition onQueue ::
  "ParallelOrchestrationStrategy \<Rightarrow> string \<Rightarrow> (DelayingQueue \<Rightarrow> DelayingQueue)
     \<Rightarrow> fault + ParallelOrchestrationStrategy" where
  "onQueue p execID m =
     (case dq p execID of
        None \<Rightarrow> Inl NilDereference
      | Some q \<Rightarrow> Inr (p\<lparr>dq := (dq p)(execID \<mapsto> m q)\<rparr>))"

definition handleRescheduleErrorOperation ::
  "ParallelOrchestrationStrategy \<Rightarrow> string \<Rightarrow> addr \<Rightarrow> fault + ParallelOrchestrationStrategy" where
  "handleRescheduleErrorOperation p execID op = onQueue p execID (\<lambda>q. dq_AddAfter q op (24 * Hour))"

text \<open>
  The shift of an elapsed window, as the two branches of \<^verbatim>\<open>updateMaintenanceWindow\<close> on
  \<^verbatim>\<open>p.rescheduleDelay > 0\<close> write it into the operation.
\<close>

definition shiftWindow :: "ParallelOrchestrationStrategy \<Rightarrow> RuntimeOperation \<Rightarrow> RuntimeOperation" where
  "shiftWindow p op =
     (if rescheduleDelay p > 0
      then op\<lparr>MaintenanceWindowBegin := time_Add (MaintenanceWindowBegin op) (rescheduleDelay p),
              MaintenanceWindowEnd := time_Add (MaintenanceWindowEnd op) (rescheduleDelay p)\<rparr>
      else (let currentDay = time_Weekday (MaintenanceWindowBegin op);
                diff = NextAvailableDayDiff currentDay
                         (ConvertSliceOfDaysToMap (MaintenanceDays op))
            in op\<lparr>MaintenanceWindowBegin := time_AddDate_days (MaintenanceWindowBegin op) diff,
                  MaintenanceWindowEnd := time_AddDate_days (MaintenanceWindowEnd op) diff\<rparr>))"

text \<open>
  \<^verbatim>\<open>updateMaintenanceWindow\<close> reads and writes the operation behind \<open>op\<close>. The clock is
  read by \<^verbatim>\<open>time.Now()\<close> in the test of the window (only when the end is not zero: \<^verbatim>\<open>&&\<close>
  is short-circuit) and again by \<^verbatim>\<open>time.Until\<close>. On a failed \<^verbatim>\<open>Reschedule\<close> the result of
  \<^verbatim>\<open>errors.Wrap\<close> is dropped and \<^verbatim>\<open>duration\<close> still has its zero value.
\<close>

definition updateMaintenanceWindow ::
  "'w Collaborators \<Rightarrow> ParallelOrchestrationStrategy \<Rightarrow> string \<Rightarrow> addr \<Rightarrow> StrategySpec
     \<Rightarrow> heap \<Rightarrow> 'w \<Rightarrow> (Duration \<times> error option) \<times> heap \<times> 'w" where
  "updateMaintenanceWindow c p execID op strategy h w =
     (let id = ID (h op) in
      case Schedule strategy of
        MaintenanceWindow \<Rightarrow>
          (let (elapsed, w1) =
                 (if time_IsZero (MaintenanceWindowEnd (h op)) then (False, w)
                  else (let (now, w') = time_Now c w
                        in (time_Before (MaintenanceWindowEnd (h op)) now, w')))
           in if elapsed then
                (let h' = h(op := shiftWindow p (h op));
                     (err, w2) = executor_Reschedule c id (MaintenanceWindowBegin (h' op))
                                   (MaintenanceWindowEnd (h' op)) w1
                 in case err of
                      Some e \<Rightarrow> ((0, Some e), h', w2)
                    | None \<Rightarrow>
                        (let (now, w3) = time_Now c w2
                         in ((time_Sub (MaintenanceWindowBegin (h' op)) now, None), h', w3)))
              else
                (let (now, w3) = time_Now c w1
                 in ((time_Sub (MaintenanceWindowBegin (h op)) now, None), h, w3)))
      | Immediate \<Rightarrow> ((0, None), h, w)
      | OtherSchedule \<Rightarrow> ((0, None), h, w))"

text \<open>
  \<^verbatim>\<open>processOperation\<close>. The deferred function recovers a panic of the executor and then
  marks the item done; the decrement of \<^verbatim>\<open>processingNum\<close> sits after the call of the
  executor in the body, so a panic skips it. With no queue registered for \<open>execID\<close> the
  deferred \<^verbatim>\<open>p.dq[execID].Done(op)\<close> itself panics, after \<^verbatim>\<open>recover\<close> has run.
\<close>

definition processOperation ::
  "'w Collaborators \<Rightarrow> string \<Rightarrow> addr \<Rightarrow> ParallelOrchestrationStrategy \<Rightarrow> heap \<Rightarrow> 'w
     \<Rightarrow> fault + (ParallelOrchestrationStrategy \<times> 'w)" where
  "processOperation c execID op p h w =
     (let id = ID (h op);
          (outcome, w') = executor_Execute c id w
      in case dq p execID of
           None \<Rightarrow> Inl NilDereference
         | Some q \<Rightarrow>
             (case outcome of
                Panics v \<Rightarrow> Inr (p\<lparr>dq := (dq p)(execID \<mapsto> dq_Done q op)\<rparr>, w')
              | Returns when err \<Rightarrow>
                  if err = None \<and> when \<noteq> 0
                  then Inr (p\<lparr>dq := (dq p)(execID \<mapsto> dq_Done (dq_AddAfter q op when) op)\<rparr>, w')
                  else Inr (p\<lparr>processingNum :=
                                 (processingNum p)(execID \<mapsto> processingNumOf p execID - 1),
                               dq := (dq p)(execID \<mapsto> dq_Done q op)\<rparr>, w')))"

text \<open>
  \<^verbatim>\<open>createWorker\<close> adds one to the wait-group and starts the goroutine of the worker; the
  goroutine is outside a sequential model.
\<close>

definition createWorker ::
  "ParallelOrchestrationStrategy \<Rightarrow> string \<Rightarrow> fault + ParallelOrchestrationStrategy" where
  "createWorker p execID =
     (case wg p execID of
        None \<Rightarrow> Inl NilDereference
      | Some n \<Rightarrow> Inr (p\<lparr>wg := (wg p)(execID \<mapsto> n + 1)\<rparr>))"

fun createWorkers ::
  "nat \<Rightarrow> ParallelOrchestrationStrategy \<Rightarrow> string \<Rightarrow> fault + ParallelOrchestrationStrategy" where
  "createWorkers 0 p execID = Inr p"
| "createWorkers (Suc k) p execID =
     (case createWorker p execID of
        Inl f \<Rightarrow> Inl f
      | Inr p' \<Rightarrow> createWorkers k p' execID)"

text \<open>
  The \<^verbatim>\<open>range\<close> loop of \<^verbatim>\<open>Execute\<close>, over the indices still to visit. Each iteration
  copies \<^verbatim>\<open>operations[i]\<close> into the loop variable \<^verbatim>\<open>op\<close>, whose address at iteration
  \<open>i\<close> is \<open>var i\<close>, and evaluates the window on \<^verbatim>\<open>&op\<close>. On an error it is \<^verbatim>\<open>&op\<close> that is
  added to the queue; otherwise \<^verbatim>\<open>&operations[i]\<close>.
\<close>

fun enqueueOperations ::
  "'w Collaborators \<Rightarrow> string \<Rightarrow> StrategySpec \<Rightarrow> nat \<Rightarrow> (nat \<Rightarrow> addr) \<Rightarrow> nat list
     \<Rightarrow> ParallelOrchestrationStrategy \<Rightarrow> heap \<Rightarrow> 'w
     \<Rightarrow> fault + (ParallelOrchestrationStrategy \<times> heap \<times> 'w)" where
  "enqueueOperations c execID strategySpec a var [] p h w = Inr (p, h, w)"
| "enqueueOperations c execID strategySpec a var (i # rest) p h w =
     (let op = var i;
          h1 = h(op := h (SliceElem a i));
          ((duration, err), h2, w2) = updateMaintenanceWindow c p execID op strategySpec h1 w
      in case (case err of
                 Some e \<Rightarrow> handleRescheduleErrorOperation p execID op
               | None \<Rightarrow> onQueue p execID (\<lambda>q. dq_AddAfter q (SliceElem a i) duration)) of
           Inl f \<Rightarrow> Inl f
         | Inr p' \<Rightarrow> enqueueOperations c execID strategySpec a var rest p' h2 w2)"

text \<open>
  \<^verbatim>\<open>Execute\<close>. The model follows the rule of every Go release before 1.22 (and of later
  ones for a module whose \<^verbatim>\<open>go\<close> directive is older): a \<^verbatim>\<open>range\<close> loop declares its
  variable once for the whole loop, so \<^verbatim>\<open>&op\<close> is the same address in every iteration.
  The loop itself is written for that rule: where it adds the element, it takes
  \<^verbatim>\<open>&operations[i]\<close> and not \<^verbatim>\<open>&op\<close>. The workers that \<^verbatim>\<open>createWorker\<close> starts first
  take the read lock, which \<^verbatim>\<open>Execute\<close> holds for writing until it returns, so the state
  that \<^verbatim>\<open>Execute\<close> returns is the state the workers start from.
\<close>

definition Execute ::
  "'w Collaborators \<Rightarrow> OperationSlice \<Rightarrow> StrategySpec \<Rightarrow> ParallelOrchestrationStrategy
     \<Rightarrow> heap \<Rightarrow> 'w
     \<Rightarrow> fault + ((string \<times> error option) \<times> ParallelOrchestrationStrategy \<times> heap \<times> 'w)" where
  "Execute c operations strategySpec p h w =
     (if count operations = 0 then Inr (('''', None), p, h, w)
      else
        (let (execID, w1) = uuid_New c w;
             p1 = p\<lparr>processingNum := (processingNum p)(execID \<mapsto> int (count operations))\<rparr>;
             p2 = p1\<lparr>wg := (wg p1)(execID \<mapsto> 0)\<rparr>;
             p3 = p2\<lparr>dq := (dq p2)(execID \<mapsto> NewDelayingQueue)\<rparr>
         in case enqueueOperations c execID strategySpec (array operations)
                   (\<lambda>i. RangeVar execID 0) [0 ..< count operations] p3 h w1 of
              Inl f \<Rightarrow> Inl f
            | Inr (p4, h', w') \<Rightarrow>
                (case createWorkers (nat (Workers strategySpec)) p4 execID of
                   Inl f \<Rightarrow> Inl f
                 | Inr p5 \<Rightarrow> Inr ((execID, None), p5, h', w'))))"

text \<open>
  The same call under the rule of Go 1.22, where every iteration has a variable of its
  own. It is here for comparison only: no claim is settled on it.
\<close>

definition Execute_perIteration ::
  "'w Collaborators \<Rightarrow> OperationSlice \<Rightarrow> StrategySpec \<Rightarrow> ParallelOrchestrationStrategy
     \<Rightarrow> heap \<Rightarrow> 'w
     \<Rightarrow> fault + ((string \<times> error option) \<times> ParallelOrchestrationStrategy \<times> heap \<times> 'w)" where
  "Execute_perIteration c operations strategySpec p h w =
     (if count operations = 0 then Inr (('''', None), p, h, w)
      else
        (let (execID, w1) = uuid_New c w;
             p1 = p\<lparr>processingNum := (processingNum p)(execID \<mapsto> int (count operations))\<rparr>;
             p2 = p1\<lparr>wg := (wg p1)(execID \<mapsto> 0)\<rparr>;
             p3 = p2\<lparr>dq := (dq p2)(execID \<mapsto> NewDelayingQueue)\<rparr>
         in case enqueueOperations c execID strategySpec (array operations)
                   (\<lambda>i. RangeVar execID i) [0 ..< count operations] p3 h w1 of
              Inl f \<Rightarrow> Inl f
            | Inr (p4, h', w') \<Rightarrow>
                (case createWorkers (nat (Workers strategySpec)) p4 execID of
                   Inl f \<Rightarrow> Inl f
                 | Inr p5 \<Rightarrow> Inr ((execID, None), p5, h', w'))))"

text \<open>
  \<^verbatim>\<open>Wait\<close> calls \<^verbatim>\<open>wg.Wait()\<close> only on a wait-group that is registered; the strategy is
  only read.
\<close>

datatype WaitOutcome = ReturnsAtOnce | WaitsOnGroup nat

definition Wait :: "ParallelOrchestrationStrategy \<Rightarrow> string \<Rightarrow> WaitOutcome \<times> ParallelOrchestrationStrategy" where
  "Wait p executionID =
     (case wg p executionID of
        None \<Rightarrow> (ReturnsAtOnce, p)
      | Some n \<Rightarrow> (WaitsOnGroup n, p))"

definition Cancel :: "ParallelOrchestrationStrategy \<Rightarrow> string \<Rightarrow> ParallelOrchestrationStrategy" where
  "Cancel p executionID =
     (if executionID = '''' then p
      else case dq p executionID of
             None \<Rightarrow> p
           | Some q \<Rightarrow> p\<lparr>dq := (dq p)(executionID \<mapsto> dq_ShutDown q)\<rparr>)"

section \<open>The retry endpoint of the orchestration handler\<close>

text \<open>
  \<^verbatim>\<open>retryOrchestrationByID\<close> writes exactly one HTTP response on every path. The storage
  and the two retry methods of the \<^verbatim>\<open>Retryer\<close> are not among the sources (only their
  calls are); they are fields of \<open>HandlerDeps\<close>, functions over an abstract storage state
  \<open>'s\<close>. The retry methods leave their answer in \<^verbatim>\<open>h.retryer.resp\<close>, so they return the
  retryer they were called on, updated.
\<close>

datatype OrchestrationType =
  UpgradeKymaOrchestration | UpgradeClusterOrchestration | OtherType string

record Orchestration =
  OrchestrationID :: string
  Type :: OrchestrationType

datatype OperationState = Failed | InProgress

record RetryResponse =
  RetryOperations :: "string list"
  Msg :: string

datatype ProcessQueue = kymaQueue | clusterQueue

record Retryer =
  queue :: "ProcessQueue option"
  resp :: RetryResponse

text \<open>
  The parts of the request the handler reads: the \<^verbatim>\<open>Content-type\<close> header, the route
  variable, and the form. \<open>form\<close> is \<open>None\<close> for a nil body; otherwise it is the error of
  \<^verbatim>\<open>ParseForm\<close> or the values of the field \<^verbatim>\<open>operation-id\<close>.
\<close>

record Request =
  contentType :: string
  orchestration_id :: string
  form :: "(error + string list) option"

record ('s, 'o) HandlerDeps =
  orchestrations_GetByID :: "string \<Rightarrow> 's \<Rightarrow> (error + Orchestration) \<times> 's"
  ListUpgradeKymaOperationsByOrchestrationID ::
    "string \<Rightarrow> OperationState list \<Rightarrow> 's \<Rightarrow> (error + 'o list) \<times> 's"
  ListUpgradeClusterOperationsByOrchestrationID ::
    "string \<Rightarrow> OperationState list \<Rightarrow> 's \<Rightarrow> (error + 'o list) \<times> 's"
  kymaUpgradeRetry ::
    "Orchestration \<Rightarrow> 'o list \<Rightarrow> string list \<Rightarrow> Retryer \<Rightarrow> 's \<Rightarrow> (error option \<times> Retryer) \<times> 's"
  clusterUpgradeRetry ::
    "Orchestration \<Rightarrow> 'o list \<Rightarrow> string list \<Rightarrow> Retryer \<Rightarrow> 's \<Rightarrow> (error option \<times> Retryer) \<times> 's"

text \<open>
  Modelled from the spec: the retry methods of the \<^verbatim>\<open>Retryer\<close> (\<^verbatim>\<open>kymaUpgradeRetry\<close> and
  \<^verbatim>\<open>clusterUpgradeRetry\<close>), which are not among the sources; the handler only calls them
  and reads \<^verbatim>\<open>h.retryer.resp\<close> afterwards. The spec (4.4) says: the candidate operations
  are intersected with the operation IDs the caller supplied, an empty list of IDs meaning
  all candidates; each operation of the intersection has its state reset to retrying and
  is put on the queue; the response lists the operation IDs accepted for retry; if no
  operations were accepted, the response has an empty accepted list and an informational
  message. The spec does not give the wording of that message: it is the parameter
  \<open>info\<close>. Resetting and enqueueing one operation belongs to the storage and the queue: it
  is the parameter \<open>requeue\<close>. The list of rejected IDs, which the handler never reads, is
  left out.
\<close>

definition eligibleOperations :: "('o \<Rightarrow> string) \<Rightarrow> 'o list \<Rightarrow> string list \<Rightarrow> 'o list" where
  "eligibleOperations opID candidates operationIDs =
     (if operationIDs = [] then candidates
      else filter (\<lambda>op. opID op \<in> set operationIDs) candidates)"

definition upgradeRetry ::
  "string \<Rightarrow> ('o \<Rightarrow> string) \<Rightarrow> (ProcessQueue option \<Rightarrow> 'o \<Rightarrow> 's \<Rightarrow> 's)
     \<Rightarrow> Orchestration \<Rightarrow> 'o list \<Rightarrow> string list \<Rightarrow> Retryer \<Rightarrow> 's
     \<Rightarrow> (error option \<times> Retryer) \<times> 's" where
  "upgradeRetry info opID requeue orch candidates operationIDs rt s =
     (let ops = eligibleOperations opID candidates operationIDs;
          s' = fold (requeue (queue rt)) ops s;
          accepted = map opID ops
      in ((None, rt\<lparr>resp := \<lparr>RetryOperations = accepted,
                              Msg = (if accepted = [] then info else [])\<rparr>\<rparr>), s'))"

datatype Body = ErrorBody error | RetryBody RetryResponse

type_synonym Response = "nat \<times> Body"

definition StatusAccepted :: nat where
  "StatusAccepted = 202"

definition StatusBadRequest :: nat where
  "StatusBadRequest = 400"

definition StatusNotFound :: nat where
  "StatusNotFound = 404"

definition StatusUnsupportedMediaType :: nat where
  "StatusUnsupportedMediaType = 415"

definition StatusInternalServerError :: nat where
  "StatusInternalServerError = 500"

fun errors_Cause :: "error \<Rightarrow> error" where
  "errors_Cause (Err k m) = Err k m"
| "errors_Cause (Wrap e m) = errors_Cause e"

definition resolveErrorStatus :: "error \<Rightarrow> nat" where
  "resolveErrorStatus err =
     (case errors_Cause err of
        Err NotFound m \<Rightarrow> StatusNotFound
      | Err BadRequest m \<Rightarrow> StatusBadRequest
      | _ \<Rightarrow> StatusInternalServerError)"

text \<open>The statements after the \<^verbatim>\<open>switch\<close>: the message is set and the response written.\<close>

definition respondQueued :: "Retryer \<Rightarrow> 's \<Rightarrow> Response \<times> Retryer \<times> 's" where
  "respondQueued rt s =
     (let rt' = rt\<lparr>resp := (resp rt)\<lparr>Msg := ''retry operations are queued for processing''\<rparr>\<rparr>
      in ((StatusAccepted, RetryBody (resp rt')), rt', s))"

definition retryOrchestrationByID ::
  "('s, 'o) HandlerDeps \<Rightarrow> Retryer \<Rightarrow> Request \<Rightarrow> 's \<Rightarrow> Response \<times> Retryer \<times> 's" where
  "retryOrchestrationByID d rt r s =
     (if contentType r \<noteq> ''application/x-www-form-urlencoded''
      then ((StatusUnsupportedMediaType,
             ErrorBody (Err Other (''invalide content type '' @ contentType r))), rt, s)
      else
        (let orchestrationID = orchestration_id r in
         case (case form r of
                 None \<Rightarrow> Inr []
               | Some (Inl e) \<Rightarrow> Inl e
               | Some (Inr ids) \<Rightarrow> Inr ids) of
           Inl e \<Rightarrow>
             ((resolveErrorStatus e,
               ErrorBody (Wrap e (''while retrying orchestration '' @ orchestrationID))), rt, s)
         | Inr operationIDs \<Rightarrow>
             (let (found, s1) = orchestrations_GetByID d orchestrationID s in
              case found of
                Inl e \<Rightarrow>
                  ((resolveErrorStatus e,
                    ErrorBody (Wrap e (''while retrying orchestration '' @ orchestrationID))), rt, s1)
              | Inr orch \<Rightarrow>
                  (case Type orch of
                     UpgradeKymaOrchestration \<Rightarrow>
                       (let (listed, s2) = ListUpgradeKymaOperationsByOrchestrationID d
                                             (OrchestrationID orch) [Failed, InProgress] s1 in
                        case listed of
                          Inl e \<Rightarrow>
                            ((StatusInternalServerError,
                              ErrorBody (Wrap e ''while getting operations'')), rt, s2)
                        | Inr allOps \<Rightarrow>
                            (let ((err, rt2), s3) =
                                   kymaUpgradeRetry d orch allOps operationIDs
                                     (rt\<lparr>queue := Some kymaQueue\<rparr>) s2 in
                             case err of
                               Some e \<Rightarrow> ((StatusInternalServerError, ErrorBody e), rt2, s3)
                             | None \<Rightarrow>
                                 if length (RetryOperations (resp rt2)) = 0
                                 then ((StatusAccepted, RetryBody (resp rt2)), rt2, s3)
                                 else respondQueued rt2 s3))
                   | UpgradeClusterOrchestration \<Rightarrow>
                       (let (listed, s2) = ListUpgradeClusterOperationsByOrchestrationID d
                                             (OrchestrationID orch) [Failed, InProgress] s1 in
                        case listed of
                          Inl e \<Rightarrow>
                            ((StatusInternalServerError,
                              ErrorBody (Wrap e ''while getting operations'')), rt, s2)
                        | Inr allOps \<Rightarrow>
                            (let ((err, rt2), s3) =
                                   clusterUpgradeRetry d orch allOps operationIDs
                                     (rt\<lparr>queue := Some clusterQueue\<rparr>) s2 in
                             case err of
                               Some e \<Rightarrow> ((StatusInternalServerError, ErrorBody e), rt2, s3)
                             | None \<Rightarrow>
                                 if length (RetryOperations (resp rt2)) = 0
                                 then ((StatusAccepted, RetryBody (resp rt2)), rt2, s3)
                                 else respondQueued rt2 s3))
                   | OtherType t \<Rightarrow>
                       ((StatusInternalServerError,
                         ErrorBody (Err Other (''unsupported orchestration type: '' @ t))),
                        rt, s1)))))"

section \<open>Concrete inputs\<close>

text \<open>
  Collaborators over a world that counts the calls made so far: the clock starts at
  \<open>start\<close> and moves by one nanosecond per call, the UUID generator returns \<open>exec\<close>, and
  the executor answers by operation ID.
\<close>

definition countingCollaborators ::
  "Time \<Rightarrow> (string \<Rightarrow> ExecuteOutcome) \<Rightarrow> (string \<Rightarrow> error option) \<Rightarrow> nat Collaborators" where
  "countingCollaborators start execute reschedule =
     \<lparr>time_Now = (\<lambda>w. (start + int w, Suc w)),
      uuid_New = (\<lambda>w. (''exec'', Suc w)),
      executor_Execute = (\<lambda>id w. (execute id, Suc w)),
      executor_Reschedule = (\<lambda>id b e w. (reschedule id, Suc w))\<rparr>"

definition rescheduleSucceeds :: "nat Collaborators" where
  "rescheduleSucceeds = countingCollaborators (8 * Day) (\<lambda>i. Returns 0 None) (\<lambda>i. None)"

definition rescheduleFailsForA :: "nat Collaborators" where
  "rescheduleFailsForA =
     countingCollaborators (8 * Day) (\<lambda>i. Returns 0 None)
       (\<lambda>i. if i = ''A'' then Some (Err Other ''storage'') else None)"

text \<open>
  Operation \<open>A\<close> has a window on the Monday one week after the zero time, one hour long,
  and may be maintained on Thursdays; operation \<open>B\<close> has no window end.
\<close>

definition opA :: RuntimeOperation where
  "opA = \<lparr>ID = ''A'', MaintenanceWindowBegin = 7 * Day,
          MaintenanceWindowEnd = 7 * Day + Hour, MaintenanceDays = [Thursday]\<rparr>"

definition opB :: RuntimeOperation where
  "opB = \<lparr>ID = ''B'', MaintenanceWindowBegin = 9 * Day,
          MaintenanceWindowEnd = 0, MaintenanceDays = [Thursday]\<rparr>"

definition twoOps :: heap where
  "twoOps = (\<lambda>a. opB)(SliceElem 0 0 := opA)"

text \<open>A strategy with one execution \<open>exec\<close> that has one operation outstanding.\<close>

definition oneOutstanding :: ParallelOrchestrationStrategy where
  "oneOutstanding =
     \<lparr>dq = [''exec'' \<mapsto> NewDelayingQueue], wg = [''exec'' \<mapsto> 1],
      rescheduleDelay = 24 * Hour, processingNum = [''exec'' \<mapsto> 1]\<rparr>"

definition windowSpec :: StrategySpec where
  "windowSpec = \<lparr>Schedule = MaintenanceWindow, Workers = 1\<rparr>"

text \<open>
  The claim about elapsed windows asks for the smallest positive number of days that
  lands the begin of the window on an allowed weekday; this is that property, in the
  claim's words, of a number of days \<open>d\<close>.
\<close>

definition smallestShiftToAllowedDay :: "Weekday \<Rightarrow> Weekday list \<Rightarrow> nat \<Rightarrow> bool" where
  "smallestShiftToAllowedDay currentDay days d \<longleftrightarrow>
     0 < d \<and> weekdayOf (weekdayNum currentDay + d) \<in> set days \<and>
     list_all (\<lambda>k. weekdayOf (weekdayNum currentDay + k) \<notin> set days) [1 ..< d]"

text \<open>
  A strategy as the constructor builds it from the delay 0, with one execution \<open>exec\<close>
  registered afterwards, as \<^verbatim>\<open>Execute\<close> does.
\<close>

definition constructedWithExecution :: ParallelOrchestrationStrategy where
  "constructedWithExecution =
     (NewParallelOrchestrationStrategy 0)
       \<lparr>dq := [''exec'' \<mapsto> NewDelayingQueue], wg := [''exec'' \<mapsto> 1],
        processingNum := [''exec'' \<mapsto> 1]\<rparr>"

text \<open>
  An operation with no maintenance window (both ends are the zero time), and a clock that
  starts on January 1 of the year 2000, which is 63082281600 seconds after the zero time.
\<close>

definition opAnyTime :: RuntimeOperation where
  "opAnyTime = \<lparr>ID = ''C'', MaintenanceWindowBegin = 0, MaintenanceWindowEnd = 0,
                MaintenanceDays = []\<rparr>"

definition anyTimeOps :: heap where
  "anyTimeOps = (\<lambda>a. opAnyTime)"

definition clockIn2000 :: "nat Collaborators" where
  "clockIn2000 =
     countingCollaborators (63082281600 * 1000000000) (\<lambda>i. Returns 0 None) (\<lambda>i. None)"

text \<open>
  A storage that knows one Kyma orchestration with one candidate operation \<open>op1\<close>, the
  retry methods of the spec with the message \<open>nothing to retry\<close>, and a request that names
  only \<open>op9\<close>, which is not a candidate. The storage state is the list of operations put on
  a queue.
\<close>

definition oneCandidate :: "((ProcessQueue option \<times> string) list, string) HandlerDeps" where
  "oneCandidate =
     \<lparr>orchestrations_GetByID =
        (\<lambda>i s. (Inr \<lparr>OrchestrationID = i, Type = UpgradeKymaOrchestration\<rparr>, s)),
      ListUpgradeKymaOperationsByOrchestrationID = (\<lambda>i f s. (Inr [''op1''], s)),
      ListUpgradeClusterOperationsByOrchestrationID = (\<lambda>i f s. (Inr [], s)),
      kymaUpgradeRetry = upgradeRetry ''nothing to retry'' (\<lambda>op. op) (\<lambda>q op s. s @ [(q, op)]),
      clusterUpgradeRetry = upgradeRetry ''nothing to retry'' (\<lambda>op. op) (\<lambda>q op s. s @ [(q, op)])\<rparr>"

definition retryOp9 :: Request where
  "retryOp9 = \<lparr>contentType = ''application/x-www-form-urlencoded'',
               orchestration_id = ''o1'', form = Some (Inr [''op9''])\<rparr>"

definition freshRetryer :: Retryer where
  "freshRetryer = \<lparr>queue = None, resp = \<lparr>RetryOperations = [], Msg = []\<rparr>\<rparr>"

section \<open>Properties\<close>

subsection \<open>Shared facts\<close>

lemma error_not_Wrap: "e \<noteq> Wrap e msg"
  by (induction e) auto

lemma time_Sub_exact:
  "minDuration \<le> t - u \<Longrightarrow> t - u \<le> maxDuration \<Longrightarrow> time_Sub t u = t - u"
  by (simp add: time_Sub_def)

lemma updateMaintenanceWindow_Immediate:
  "Schedule strategy = Immediate \<Longrightarrow>
   updateMaintenanceWindow c p execID op strategy h w = ((0, None), h, w)"
  by (simp add: updateMaintenanceWindow_def)

lemma updateMaintenanceWindow_no_end:
  "Schedule strategy = MaintenanceWindow \<Longrightarrow> time_IsZero (MaintenanceWindowEnd (h op)) \<Longrightarrow>
   updateMaintenanceWindow c p execID op strategy h w =
     ((time_Sub (MaintenanceWindowBegin (h op)) (fst (time_Now c w)), None), h, snd (time_Now c w))"
  by (simp add: updateMaintenanceWindow_def Let_def case_prod_beta)

lemma updateMaintenanceWindow_open:
  "Schedule strategy = MaintenanceWindow \<Longrightarrow> \<not> time_IsZero (MaintenanceWindowEnd (h op)) \<Longrightarrow>
   \<not> time_Before (MaintenanceWindowEnd (h op)) (fst (time_Now c w)) \<Longrightarrow>
   updateMaintenanceWindow c p execID op strategy h w =
     ((time_Sub (MaintenanceWindowBegin (h op)) (fst (time_Now c (snd (time_Now c w)))), None),
      h, snd (time_Now c (snd (time_Now c w))))"
  by (simp add: updateMaintenanceWindow_def Let_def case_prod_beta)

lemma updateMaintenanceWindow_elapsed:
  "Schedule strategy = MaintenanceWindow \<Longrightarrow> \<not> time_IsZero (MaintenanceWindowEnd (h op)) \<Longrightarrow>
   time_Before (MaintenanceWindowEnd (h op)) (fst (time_Now c w)) \<Longrightarrow>
   executor_Reschedule c (ID (h op)) (MaintenanceWindowBegin (shiftWindow p (h op)))
     (MaintenanceWindowEnd (shiftWindow p (h op))) (snd (time_Now c w)) = (r, w2) \<Longrightarrow>
   updateMaintenanceWindow c p execID op strategy h w =
     (case r of
        Some e \<Rightarrow> ((0, Some e), h(op := shiftWindow p (h op)), w2)
      | None \<Rightarrow> ((time_Sub (MaintenanceWindowBegin (shiftWindow p (h op))) (fst (time_Now c w2)), None),
                 h(op := shiftWindow p (h op)), snd (time_Now c w2)))"
  by (simp add: updateMaintenanceWindow_def Let_def case_prod_beta split: option.splits)

lemma Day_eq: "Day = 86400000000000"
  by (simp add: Day_def Hour_def)

subsection \<open>Execute on no operations\<close>

text \<open>
  Claim C9. For the empty list of operations and any strategy spec, \<^verbatim>\<open>Execute\<close> returns
  the empty string as execution ID and a nil error, and the strategy it returns is the one
  it was called on: no queue, wait-group or counter is registered for any execution ID.
  The store and the world are untouched too (no UUID is drawn, the clock is not read).
\<close>

theorem Execute_empty:
  "count operations = 0 \<Longrightarrow>
   Execute c operations strategySpec p h w = Inr (('''', None), p, h, w)"
  by (simp add: Execute_def)

theorem Execute_empty_witness:
  "count \<lparr>array = 0, count = 0\<rparr> = 0 \<and>
   Execute (countingCollaborators 0 (\<lambda>i. Returns 0 None) (\<lambda>i. None)) \<lparr>array = 0, count = 0\<rparr>
     windowSpec oneOutstanding twoOps 0 = Inr (('''', None), oneOutstanding, twoOps, 0)"
  using Execute_empty [of "\<lparr>array = 0, count = 0\<rparr>"
      "countingCollaborators 0 (\<lambda>i. Returns 0 None) (\<lambda>i. None)" windowSpec oneOutstanding twoOps 0]
  by simp

subsection \<open>Wait and Cancel\<close>

text \<open>
  Claim C10. For every execution ID with no wait-group registered (the empty string and
  IDs that \<^verbatim>\<open>Execute\<close> never returned among them), \<^verbatim>\<open>Wait\<close> returns without calling
  \<^verbatim>\<open>wg.Wait()\<close>, so without blocking, and leaves the strategy as it was.
\<close>

theorem Wait_unregistered:
  "wg p executionID = None \<Longrightarrow> Wait p executionID = (ReturnsAtOnce, p)"
  by (simp add: Wait_def)

theorem Wait_unregistered_witness:
  "wg oneOutstanding '''' = None \<and> Wait oneOutstanding '''' = (ReturnsAtOnce, oneOutstanding)
   \<and> Wait oneOutstanding ''exec'' = (WaitsOnGroup 1, oneOutstanding)"
proof -
  have none: "wg oneOutstanding '''' = None"
    by (simp add: oneOutstanding_def)
  have "Wait oneOutstanding ''exec'' = (WaitsOnGroup 1, oneOutstanding)"
    by (simp add: Wait_def oneOutstanding_def)
  with none Wait_unregistered [OF none] show ?thesis by simp
qed

text \<open>
  Claim C7. \<^verbatim>\<open>Cancel\<close> is idempotent and total on execution IDs: cancelling \<open>x\<close> twice
  leaves the strategy in the state that cancelling it once does, and \<^verbatim>\<open>Cancel\<close> on the
  empty execution ID or on an ID with no registered queue changes nothing.
\<close>

theorem Cancel_idempotent:
  "Cancel (Cancel p x) x = Cancel p x \<and> Cancel p '''' = p \<and> (dq p x = None \<longrightarrow> Cancel p x = p)"
  by (auto simp: Cancel_def dq_ShutDown_def split: option.splits)

theorem Cancel_idempotent_witness:
  "dq oneOutstanding ''other'' = None \<and> Cancel oneOutstanding ''other'' = oneOutstanding \<and>
   Cancel (Cancel oneOutstanding ''exec'') ''exec'' = Cancel oneOutstanding ''exec'' \<and>
   Cancel oneOutstanding ''exec'' \<noteq> oneOutstanding"
proof -
  have none: "dq oneOutstanding ''other'' = None"
    by (simp add: oneOutstanding_def)
  have "dq (Cancel oneOutstanding ''exec'') ''exec'' \<noteq> dq oneOutstanding ''exec''"
    by (simp add: Cancel_def oneOutstanding_def dq_ShutDown_def NewDelayingQueue_def)
  then have "Cancel oneOutstanding ''exec'' \<noteq> oneOutstanding"
    by auto
  with none Cancel_idempotent [of oneOutstanding "''other''"]
    Cancel_idempotent [of oneOutstanding "''exec''"]
  show ?thesis by simp
qed

subsection \<open>The maintenance policy\<close>

lemma time_Sub_clamped: "time_Sub t u = max minDuration (min maxDuration (t - u))"
  by (simp add: time_Sub_def minDuration_def maxDuration_def max_def min_def)

text \<open>
  Claim C5, amended. With \<^verbatim>\<open>Schedule = Immediate\<close> the evaluation of the maintenance policy
  returns a zero delay and a nil error. With \<^verbatim>\<open>Schedule = MaintenanceWindow\<close> and a window
  that has not elapsed (its end is zero, or is not before the clock's reading) it returns
  a nil error and leaves the operation as it is; the delay is \<^verbatim>\<open>MaintenanceWindowBegin\<close>
  minus the current time (the reading that \<^verbatim>\<open>time.Until\<close> takes) clamped to the range of
  \<^verbatim>\<open>time.Duration\<close>: the exact difference when that lies between \<open>- 2 ^ 63\<close> and
  \<open>2 ^ 63 - 1\<close> nanoseconds, and the nearer of the two bounds otherwise. It may be zero or
  negative, meaning due now.
\<close>

theorem updateMaintenanceWindow_delay:
  "(Schedule strategy = Immediate \<longrightarrow>
      updateMaintenanceWindow c p execID op strategy h w = ((0, None), h, w)) \<and>
   (Schedule strategy = MaintenanceWindow \<and> time_IsZero (MaintenanceWindowEnd (h op)) \<longrightarrow>
      updateMaintenanceWindow c p execID op strategy h w =
        ((time_Sub (MaintenanceWindowBegin (h op)) (fst (time_Now c w)), None),
         h, snd (time_Now c w))) \<and>
   (Schedule strategy = MaintenanceWindow \<and> \<not> time_IsZero (MaintenanceWindowEnd (h op)) \<and>
    \<not> time_Before (MaintenanceWindowEnd (h op)) (fst (time_Now c w)) \<longrightarrow>
      updateMaintenanceWindow c p execID op strategy h w =
        ((time_Sub (MaintenanceWindowBegin (h op)) (fst (time_Now c (snd (time_Now c w)))), None),
         h, snd (time_Now c (snd (time_Now c w))))) \<and>
   time_Sub t u = max (- (2 ^ 63)) (min (2 ^ 63 - 1) (t - u)) \<and>
   (- (2 ^ 63) \<le> t - u \<and> t - u \<le> 2 ^ 63 - 1 \<longrightarrow> time_Sub t u = t - u)"
  using updateMaintenanceWindow_Immediate [of strategy c p execID op h w]
    updateMaintenanceWindow_no_end [of strategy h op c p execID w]
    updateMaintenanceWindow_open [of strategy h op c w p execID]
    time_Sub_exact [of t u] time_Sub_clamped [of t u]
  unfolding minDuration_def maxDuration_def
  by blast

theorem updateMaintenanceWindow_delay_witness:
  "updateMaintenanceWindow (countingCollaborators (8 * Day) (\<lambda>i. Returns 0 None) (\<lambda>i. None))
     oneOutstanding ''exec'' (SliceElem 0 0) \<lparr>Schedule = Immediate, Workers = 1\<rparr> twoOps 0
     = ((0, None), twoOps, 0) \<and>
   updateMaintenanceWindow (countingCollaborators (8 * Day) (\<lambda>i. Returns 0 None) (\<lambda>i. None))
     oneOutstanding ''exec'' (SliceElem 0 1) windowSpec twoOps 0
     = ((Day, None), twoOps, 1) \<and>
   updateMaintenanceWindow (countingCollaborators (7 * Day) (\<lambda>i. Returns 0 None) (\<lambda>i. None))
     oneOutstanding ''exec'' (SliceElem 0 0) windowSpec twoOps 0
     = ((- 1, None), twoOps, 2) \<and>
   updateMaintenanceWindow clockIn2000 oneOutstanding ''exec'' (SliceElem 0 0) windowSpec
     anyTimeOps 0 = ((- (2 ^ 63), None), anyTimeOps, 1) \<and>
   time_Sub (9 * Day) (8 * Day) = Day"
proof -
  let ?c = "countingCollaborators (8 * Day) (\<lambda>i. Returns 0 None) (\<lambda>i. None)"
  let ?c7 = "countingCollaborators (7 * Day) (\<lambda>i. Returns 0 None) (\<lambda>i. None)"
  have a: "updateMaintenanceWindow ?c oneOutstanding ''exec'' (SliceElem 0 0)
             \<lparr>Schedule = Immediate, Workers = 1\<rparr> twoOps 0 = ((0, None), twoOps, 0)"
    using updateMaintenanceWindow_delay [of "\<lparr>Schedule = Immediate, Workers = 1\<rparr>" ?c
        oneOutstanding "''exec''" "SliceElem 0 0" twoOps 0]
    by simp
  have d: "time_Sub (9 * Day) (8 * Day) = Day"
    using updateMaintenanceWindow_delay [of windowSpec ?c oneOutstanding "''exec''"
        "SliceElem 0 1" twoOps 0 "9 * Day" "8 * Day"]
    by (simp add: Day_eq)
  have b: "updateMaintenanceWindow ?c oneOutstanding ''exec'' (SliceElem 0 1) windowSpec twoOps 0
             = ((Day, None), twoOps, 1)"
    using updateMaintenanceWindow_delay [of windowSpec ?c oneOutstanding "''exec''"
        "SliceElem 0 1" twoOps 0] d
    by (simp add: windowSpec_def twoOps_def opA_def opB_def countingCollaborators_def
        time_IsZero_def)
  have e: "time_Sub (7 * Day) (7 * Day + 1) = - 1"
    by (simp add: time_Sub_def minDuration_def maxDuration_def)
  have c: "updateMaintenanceWindow ?c7 oneOutstanding ''exec'' (SliceElem 0 0) windowSpec twoOps 0
             = ((- 1, None), twoOps, 2)"
    using updateMaintenanceWindow_delay [of windowSpec ?c7 oneOutstanding "''exec''"
        "SliceElem 0 0" twoOps 0] e
    by (simp add: windowSpec_def twoOps_def opA_def opB_def countingCollaborators_def
        time_IsZero_def time_Before_def Day_eq Hour_def)
  have f: "time_Sub 0 (63082281600 * 1000000000) = - (2 ^ 63)"
    using updateMaintenanceWindow_delay [of windowSpec clockIn2000 oneOutstanding "''exec''"
        "SliceElem 0 0" anyTimeOps 0 0 "63082281600 * 1000000000"]
    by simp
  have g: "updateMaintenanceWindow clockIn2000 oneOutstanding ''exec'' (SliceElem 0 0) windowSpec
             anyTimeOps 0 = ((- (2 ^ 63), None), anyTimeOps, 1)"
    using updateMaintenanceWindow_delay [of windowSpec clockIn2000 oneOutstanding "''exec''"
        "SliceElem 0 0" anyTimeOps 0] f
    by (simp add: windowSpec_def anyTimeOps_def opAnyTime_def clockIn2000_def
        countingCollaborators_def time_IsZero_def)
  from a b c d g show ?thesis by blast
qed

text \<open>
  The claim as stated fails for an operation without a window under a clock of our days:
  the begin of the window is the zero time, the clock reads January 1, 2000, and the delay
  returned is the smallest \<^verbatim>\<open>Duration\<close>, about 292 years, not the difference of about 2000
  years.
\<close>

theorem updateMaintenanceWindow_delay_counterexample:
  "Schedule windowSpec = MaintenanceWindow \<and>
   MaintenanceWindowEnd (anyTimeOps (SliceElem 0 0)) = 0 \<and>
   fst (updateMaintenanceWindow clockIn2000 oneOutstanding ''exec'' (SliceElem 0 0) windowSpec
          anyTimeOps 0) = (- 9223372036854775808, None) \<and>
   MaintenanceWindowBegin (anyTimeOps (SliceElem 0 0)) - fst (time_Now clockIn2000 0)
     = - 63082281600000000000 \<and>
   fst (fst (updateMaintenanceWindow clockIn2000 oneOutstanding ''exec'' (SliceElem 0 0)
               windowSpec anyTimeOps 0))
     \<noteq> MaintenanceWindowBegin (anyTimeOps (SliceElem 0 0)) - fst (time_Now clockIn2000 0)"
  by (simp add: updateMaintenanceWindow_def windowSpec_def anyTimeOps_def opAnyTime_def
      clockIn2000_def countingCollaborators_def time_IsZero_def time_Sub_def minDuration_def
      maxDuration_def)

subsection \<open>A failed reschedule\<close>

text \<open>
  Claim C6. When the window has elapsed and \<^verbatim>\<open>Executor.Reschedule\<close> fails with error \<open>e\<close>,
  \<^verbatim>\<open>updateMaintenanceWindow\<close> returns the zero duration together with \<open>e\<close> itself, which
  is not the wrapped error that \<^verbatim>\<open>errors.Wrap\<close> builds on that path. (The operation keeps
  the shifted window.)
\<close>

theorem updateMaintenanceWindow_reschedule_error:
  assumes "Schedule strategy = MaintenanceWindow"
    and "\<not> time_IsZero (MaintenanceWindowEnd (h op))"
    and "time_Before (MaintenanceWindowEnd (h op)) (fst (time_Now c w))"
    and "executor_Reschedule c (ID (h op)) (MaintenanceWindowBegin (shiftWindow p (h op)))
           (MaintenanceWindowEnd (shiftWindow p (h op))) (snd (time_Now c w)) = (Some e, w2)"
  shows "updateMaintenanceWindow c p execID op strategy h w =
           ((0, Some e), h(op := shiftWindow p (h op)), w2) \<and>
         e \<noteq> Wrap e ''while rescheduling operation by executor (still continuing with new schedule)''"
  using assms error_not_Wrap [of e]
  by (simp add: updateMaintenanceWindow_elapsed [where r = "Some e" and ?w2.0 = w2])

theorem updateMaintenanceWindow_reschedule_error_witness:
  "updateMaintenanceWindow
     (countingCollaborators (8 * Day) (\<lambda>i. Returns 0 None) (\<lambda>i. Some (Err Other ''storage'')))
     oneOutstanding ''exec'' (SliceElem 0 0) windowSpec twoOps 0 =
     ((0, Some (Err Other ''storage'')),
      twoOps(SliceElem 0 0 := opA\<lparr>MaintenanceWindowBegin := 8 * Day,
                                   MaintenanceWindowEnd := 8 * Day + Hour\<rparr>), 2)"
proof -
  let ?c = "countingCollaborators (8 * Day) (\<lambda>i. Returns 0 None) (\<lambda>i. Some (Err Other ''storage''))"
  have s: "shiftWindow oneOutstanding (twoOps (SliceElem 0 0)) =
             opA\<lparr>MaintenanceWindowBegin := 8 * Day, MaintenanceWindowEnd := 8 * Day + Hour\<rparr>"
    by (simp add: shiftWindow_def oneOutstanding_def twoOps_def opA_def time_Add_def Day_def
        Hour_def)
  have 1: "Schedule windowSpec = MaintenanceWindow"
    by (simp add: windowSpec_def)
  have 2: "\<not> time_IsZero (MaintenanceWindowEnd (twoOps (SliceElem 0 0)))"
    by (simp add: twoOps_def opA_def time_IsZero_def Day_def Hour_def)
  have 3: "time_Before (MaintenanceWindowEnd (twoOps (SliceElem 0 0))) (fst (time_Now ?c 0))"
    by (simp add: twoOps_def opA_def time_Before_def countingCollaborators_def Day_def Hour_def)
  have 4: "executor_Reschedule ?c (ID (twoOps (SliceElem 0 0)))
             (MaintenanceWindowBegin (shiftWindow oneOutstanding (twoOps (SliceElem 0 0))))
             (MaintenanceWindowEnd (shiftWindow oneOutstanding (twoOps (SliceElem 0 0))))
             (snd (time_Now ?c 0)) = (Some (Err Other ''storage''), 2)"
    by (simp add: countingCollaborators_def)
  from updateMaintenanceWindow_reschedule_error [where strategy = windowSpec and h = twoOps
      and op = "SliceElem 0 0" and c = ?c and w = 0 and p = oneOutstanding
      and e = "Err Other ''storage''" and ?w2.0 = 2 and execID = "''exec''", OF 1 2 3 4] s
  show ?thesis by simp
qed

subsection \<open>Processing one operation\<close>

lemma processOperation_Returns:
  "dq p execID = Some q \<Longrightarrow> executor_Execute c (ID (h op)) w = (Returns when err, w') \<Longrightarrow>
   processOperation c execID op p h w =
     (if err = None \<and> when \<noteq> 0
      then Inr (p\<lparr>dq := (dq p)(execID \<mapsto> dq_Done (dq_AddAfter q op when) op)\<rparr>, w')
      else Inr (p\<lparr>processingNum := (processingNum p)(execID \<mapsto> processingNumOf p execID - 1),
                  dq := (dq p)(execID \<mapsto> dq_Done q op)\<rparr>, w'))"
  by (simp add: processOperation_def)

lemma processOperation_Panics:
  "dq p execID = Some q \<Longrightarrow> executor_Execute c (ID (h op)) w = (Panics v, w') \<Longrightarrow>
   processOperation c execID op p h w = Inr (p\<lparr>dq := (dq p)(execID \<mapsto> dq_Done q op)\<rparr>, w')"
  by (simp add: processOperation_def)

lemma scheduled_Done [simp]: "scheduled (dq_Done q op) = scheduled q"
  by (simp add: dq_Done_def)

lemma scheduled_AddAfter:
  "scheduled (dq_AddAfter q op d) = (if shuttingDown q then scheduled q else scheduled q @ [(op, d)])"
  by (simp add: dq_AddAfter_def)

text \<open>
  Claim C4. A call of \<^verbatim>\<open>processOperation\<close> for an execution with a registered queue (every
  call is made by a worker of such an execution) returns normally, and: if the executor
  returns a nonzero retry delay with a nil error, the operation is handed to
  \<^verbatim>\<open>AddAfter\<close> with that delay (so it is in the queue again unless the queue is already
  shutting down) and the outstanding counter of the execution is unchanged; if the
  executor returns an error, or a zero delay with a nil error, the counter goes down by
  exactly one and nothing is added to the queue.
\<close>

theorem processOperation_accounting:
  assumes "dq p execID = Some q"
    and "executor_Execute c (ID (h op)) w = (Returns when err, w')"
  shows "\<exists>p'. processOperation c execID op p h w = Inr (p', w') \<and>
           (err = None \<and> when \<noteq> 0 \<longrightarrow>
              dq p' execID = Some (dq_Done (dq_AddAfter q op when) op) \<and>
              (\<not> shuttingDown q \<longrightarrow>
                 scheduled (the (dq p' execID)) = scheduled q @ [(op, when)]) \<and>
              processingNumOf p' execID = processingNumOf p execID) \<and>
           (err \<noteq> None \<or> when = 0 \<longrightarrow>
              processingNumOf p' execID = processingNumOf p execID - 1 \<and>
              dq p' execID = Some (dq_Done q op) \<and>
              scheduled (the (dq p' execID)) = scheduled q)"
  using assms
  by (auto simp: processOperation_def processingNumOf_def scheduled_AddAfter)

theorem processOperation_accounting_witness:
  "(case processOperation (countingCollaborators 0 (\<lambda>i. Returns 5 None) (\<lambda>i. None)) ''exec''
           (SliceElem 0 0) oneOutstanding twoOps 0 of
      Inl f \<Rightarrow> False
    | Inr (p', w') \<Rightarrow>
        processingNumOf p' ''exec'' = 1 \<and>
        scheduled (the (dq p' ''exec'')) = [(SliceElem 0 0, 5)]) \<and>
   (case processOperation (countingCollaborators 0 (\<lambda>i. Returns 0 None) (\<lambda>i. None)) ''exec''
           (SliceElem 0 0) oneOutstanding twoOps 0 of
      Inl f \<Rightarrow> False
    | Inr (p', w') \<Rightarrow>
        processingNumOf p' ''exec'' = 0 \<and> scheduled (the (dq p' ''exec'')) = []) \<and>
   (case processOperation
           (countingCollaborators 0 (\<lambda>i. Returns 5 (Some (Err Other ''failed''))) (\<lambda>i. None))
           ''exec'' (SliceElem 0 0) oneOutstanding twoOps 0 of
      Inl f \<Rightarrow> False
    | Inr (p', w') \<Rightarrow>
        processingNumOf p' ''exec'' = 0 \<and> scheduled (the (dq p' ''exec'')) = [])"
proof -
  have q: "dq oneOutstanding ''exec'' = Some NewDelayingQueue"
    by (simp add: oneOutstanding_def)
  have n: "processingNumOf oneOutstanding ''exec'' = 1"
    by (simp add: processingNumOf_def oneOutstanding_def)
  have s: "scheduled NewDelayingQueue = []" "\<not> shuttingDown NewDelayingQueue"
    by (simp_all add: NewDelayingQueue_def)
  have e: "executor_Execute (countingCollaborators 0 (\<lambda>i. Returns d r) (\<lambda>i. None))
             (ID (twoOps (SliceElem 0 0))) 0 = (Returns d r, 1)" for d r
    by (simp add: countingCollaborators_def)
  from processOperation_accounting [where h = twoOps and op = "SliceElem 0 0", OF q e [of 5 None]] n s
  have a: "case processOperation (countingCollaborators 0 (\<lambda>i. Returns 5 None) (\<lambda>i. None))
             ''exec'' (SliceElem 0 0) oneOutstanding twoOps 0 of
             Inl f \<Rightarrow> False
           | Inr (p', w') \<Rightarrow>
               processingNumOf p' ''exec'' = 1 \<and>
               scheduled (the (dq p' ''exec'')) = [(SliceElem 0 0, 5)]"
    by auto
  from processOperation_accounting [where h = twoOps and op = "SliceElem 0 0", OF q e [of 0 None]] n s
  have b: "case processOperation (countingCollaborators 0 (\<lambda>i. Returns 0 None) (\<lambda>i. None))
             ''exec'' (SliceElem 0 0) oneOutstanding twoOps 0 of
             Inl f \<Rightarrow> False
           | Inr (p', w') \<Rightarrow>
               processingNumOf p' ''exec'' = 0 \<and> scheduled (the (dq p' ''exec'')) = []"
    by auto
  from processOperation_accounting [where h = twoOps and op = "SliceElem 0 0",
      OF q e [of 5 "Some (Err Other ''failed'')"]] n s
  have c: "case processOperation
             (countingCollaborators 0 (\<lambda>i. Returns 5 (Some (Err Other ''failed''))) (\<lambda>i. None))
             ''exec'' (SliceElem 0 0) oneOutstanding twoOps 0 of
             Inl f \<Rightarrow> False
           | Inr (p', w') \<Rightarrow>
               processingNumOf p' ''exec'' = 0 \<and> scheduled (the (dq p' ''exec'')) = []"
    by auto
  from a b c show ?thesis by blast
qed

text \<open>
  Claim C1, as the code has it. When the call of the executor panics, the panic is
  recovered and \<^verbatim>\<open>processOperation\<close> returns normally with the item marked done, but the
  outstanding counter of the execution keeps its value: the decrement is skipped, unlike
  on a terminal error.
\<close>

theorem processOperation_panic:
  assumes "dq p execID = Some q"
    and "executor_Execute c (ID (h op)) w = (Panics v, w')"
  shows "\<exists>p'. processOperation c execID op p h w = Inr (p', w') \<and>
           processingNumOf p' execID = processingNumOf p execID \<and>
           dq p' execID = Some (dq_Done q op)"
  using assms
  by (auto simp: processOperation_def processingNumOf_def)

theorem processOperation_panic_witness:
  "(case processOperation (countingCollaborators 0 (\<lambda>i. Panics ''boom'') (\<lambda>i. None)) ''exec''
           (SliceElem 0 0) oneOutstanding twoOps 0 of
      Inl f \<Rightarrow> False
    | Inr (p', w') \<Rightarrow>
        processingNumOf oneOutstanding ''exec'' = 1 \<and> processingNumOf p' ''exec'' = 1 \<and>
        scheduled (the (dq p' ''exec'')) = [])"
proof -
  have q: "dq oneOutstanding ''exec'' = Some NewDelayingQueue"
    by (simp add: oneOutstanding_def)
  have n: "processingNumOf oneOutstanding ''exec'' = 1"
    by (simp add: processingNumOf_def oneOutstanding_def)
  have s: "scheduled NewDelayingQueue = []"
    by (simp add: NewDelayingQueue_def)
  have e: "executor_Execute (countingCollaborators 0 (\<lambda>i. Panics ''boom'') (\<lambda>i. None))
             (ID (twoOps (SliceElem 0 0))) 0 = (Panics ''boom'', 1)"
    by (simp add: countingCollaborators_def)
  from processOperation_panic [where h = twoOps and op = "SliceElem 0 0", OF q e] n s show ?thesis
    by auto
qed

subsection \<open>Elapsed windows\<close>

lemma NewParallelOrchestrationStrategy_default:
  "delay \<le> 0 \<Longrightarrow> rescheduleDelay (NewParallelOrchestrationStrategy delay) = 24 * Hour"
  by (simp add: NewParallelOrchestrationStrategy_def)

lemma NewParallelOrchestrationStrategy_positive:
  "0 < rescheduleDelay (NewParallelOrchestrationStrategy delay)"
  by (simp add: NewParallelOrchestrationStrategy_def Let_def Hour_def)

lemma shiftWindow_positive:
  "0 < rescheduleDelay p \<Longrightarrow>
   shiftWindow p op =
     op\<lparr>MaintenanceWindowBegin := MaintenanceWindowBegin op + rescheduleDelay p,
        MaintenanceWindowEnd := MaintenanceWindowEnd op + rescheduleDelay p\<rparr>"
  by (simp add: shiftWindow_def time_Add_def)

text \<open>
  The branch of \<^verbatim>\<open>updateMaintenanceWindow\<close> for a delay that is not positive is where the
  code looks at \<^verbatim>\<open>op.MaintenanceDays\<close>: were the field \<^verbatim>\<open>rescheduleDelay\<close> zero, the window
  of operation \<open>A\<close> (Monday, Thursdays allowed) would move three days, to Thursday.
\<close>

lemma shiftWindow_by_maintenance_days:
  "shiftWindow (constructedWithExecution\<lparr>rescheduleDelay := 0\<rparr>) opA =
     opA\<lparr>MaintenanceWindowBegin := 10 * Day, MaintenanceWindowEnd := 10 * Day + Hour\<rparr> \<and>
   time_Weekday (10 * Day) = Thursday"
  by (simp add: shiftWindow_def opA_def NextAvailableDayDiff_def ConvertSliceOfDaysToMap_def
      time_Weekday_def time_AddDate_days_def weekdayOf_def upt_rec Day_eq Hour_def)

text \<open>
  No call of the strategy writes \<^verbatim>\<open>rescheduleDelay\<close>: it keeps the value the constructor
  gave it.
\<close>

lemma Cancel_rescheduleDelay: "rescheduleDelay (Cancel p x) = rescheduleDelay p"
  by (simp add: Cancel_def split: option.splits)

lemma processOperation_rescheduleDelay:
  "processOperation c execID op p h w = Inr (p', w') \<Longrightarrow> rescheduleDelay p' = rescheduleDelay p"
  by (auto simp: processOperation_def Let_def case_prod_beta
      split: option.splits ExecuteOutcome.splits if_splits)

text \<open>
  Claim C2, as the code has it. \<^verbatim>\<open>NewParallelOrchestrationStrategy\<close> replaces a reschedule
  delay that is not positive by 24 hours. For every strategy that carries the delay of a
  strategy so constructed, whatever executions are registered in it, and every operation
  whose window has elapsed under \<^verbatim>\<open>Schedule = MaintenanceWindow\<close>, the policy shifts
  \<^verbatim>\<open>MaintenanceWindowBegin\<close> and \<^verbatim>\<open>MaintenanceWindowEnd\<close> forward by 24 hours, without
  looking at \<^verbatim>\<open>op.MaintenanceDays\<close>, and passes that window to \<^verbatim>\<open>Executor.Reschedule\<close>.
\<close>

theorem elapsed_window_default_shift:
  assumes "delay \<le> 0"
    and "rescheduleDelay p = rescheduleDelay (NewParallelOrchestrationStrategy delay)"
    and "Schedule strategy = MaintenanceWindow"
    and "\<not> time_IsZero (MaintenanceWindowEnd (h op))"
    and "time_Before (MaintenanceWindowEnd (h op)) (fst (time_Now c w))"
    and "shifted = (h op)\<lparr>MaintenanceWindowBegin := MaintenanceWindowBegin (h op) + 24 * Hour,
                           MaintenanceWindowEnd := MaintenanceWindowEnd (h op) + 24 * Hour\<rparr>"
    and "executor_Reschedule c (ID (h op)) (MaintenanceWindowBegin shifted)
           (MaintenanceWindowEnd shifted) (snd (time_Now c w)) = (r, w2)"
  shows "updateMaintenanceWindow c p execID op strategy h w =
           (case r of
              Some e \<Rightarrow> ((0, Some e), h(op := shifted), w2)
            | None \<Rightarrow> ((time_Sub (MaintenanceWindowBegin shifted) (fst (time_Now c w2)), None),
                       h(op := shifted), snd (time_Now c w2)))"
proof -
  have d: "rescheduleDelay p = 24 * Hour"
    using assms(1,2) by (simp add: NewParallelOrchestrationStrategy_default)
  then have "0 < rescheduleDelay p"
    by (simp add: Hour_def)
  from shiftWindow_positive [OF this, of "h op"] d assms(6)
  have s: "shiftWindow p (h op) = shifted"
    by simp
  with assms(7) have "executor_Reschedule c (ID (h op))
      (MaintenanceWindowBegin (shiftWindow p (h op)))
      (MaintenanceWindowEnd (shiftWindow p (h op))) (snd (time_Now c w)) = (r, w2)"
    by simp
  from updateMaintenanceWindow_elapsed [where p = p and h = h and op = op and c = c and w = w
      and strategy = strategy and r = r and ?w2.0 = w2 and execID = execID,
      OF assms(3) assms(4) assms(5) this] s
  show ?thesis by (simp split: option.splits)
qed

text \<open>
  At the failing input: operation \<open>A\<close>, whose window begins on a Monday and has elapsed
  and whose only maintenance day is Thursday, in a strategy constructed with the delay 0.
  The smallest shift to an allowed day is three days; the window moves by one day, to a
  Tuesday, which is not a maintenance day of the operation.
\<close>

theorem elapsed_window_default_shift_witness:
  "updateMaintenanceWindow rescheduleSucceeds constructedWithExecution ''exec''
     (SliceElem 0 0) windowSpec twoOps 0 =
     ((- 2, None),
      twoOps(SliceElem 0 0 := opA\<lparr>MaintenanceWindowBegin := 8 * Day,
                                   MaintenanceWindowEnd := 8 * Day + Hour\<rparr>), 3) \<and>
   time_Weekday (MaintenanceWindowBegin opA) = Monday \<and>
   MaintenanceDays opA = [Thursday] \<and>
   smallestShiftToAllowedDay Monday [Thursday] 3 \<and>
   \<not> smallestShiftToAllowedDay Monday [Thursday] 1 \<and>
   8 * Day = MaintenanceWindowBegin opA + 1 * Day \<and>
   time_Weekday (8 * Day) = Tuesday"
proof -
  let ?s = "opA\<lparr>MaintenanceWindowBegin := 8 * Day, MaintenanceWindowEnd := 8 * Day + Hour\<rparr>"
  have 1: "(0 :: Duration) \<le> 0" by simp
  have 2: "rescheduleDelay constructedWithExecution =
             rescheduleDelay (NewParallelOrchestrationStrategy 0)"
    by (simp add: constructedWithExecution_def)
  have 3: "Schedule windowSpec = MaintenanceWindow"
    by (simp add: windowSpec_def)
  have 4: "\<not> time_IsZero (MaintenanceWindowEnd (twoOps (SliceElem 0 0)))"
    by (simp add: twoOps_def opA_def time_IsZero_def Day_def Hour_def)
  have 5: "time_Before (MaintenanceWindowEnd (twoOps (SliceElem 0 0)))
             (fst (time_Now rescheduleSucceeds 0))"
    by (simp add: twoOps_def opA_def time_Before_def rescheduleSucceeds_def
        countingCollaborators_def Day_def Hour_def)
  have 6: "?s = (twoOps (SliceElem 0 0))
             \<lparr>MaintenanceWindowBegin := MaintenanceWindowBegin (twoOps (SliceElem 0 0)) + 24 * Hour,
              MaintenanceWindowEnd := MaintenanceWindowEnd (twoOps (SliceElem 0 0)) + 24 * Hour\<rparr>"
    by (simp add: twoOps_def opA_def Day_def)
  have 7: "executor_Reschedule rescheduleSucceeds (ID (twoOps (SliceElem 0 0)))
             (MaintenanceWindowBegin ?s) (MaintenanceWindowEnd ?s)
             (snd (time_Now rescheduleSucceeds 0)) = (None, 2)"
    by (simp add: rescheduleSucceeds_def countingCollaborators_def)
  have 8: "time_Sub (8 * Day) (8 * Day + 2) = - 2"
    by (simp add: time_Sub_def minDuration_def maxDuration_def)
  from elapsed_window_default_shift [where delay = 0 and p = constructedWithExecution
      and strategy = windowSpec and h = twoOps
      and op = "SliceElem 0 0" and c = rescheduleSucceeds and w = 0 and shifted = ?s
      and r = None and ?w2.0 = 2 and execID = "''exec''", OF 1 2 3 4 5 6 7] 8
  have u: "updateMaintenanceWindow rescheduleSucceeds constructedWithExecution ''exec''
             (SliceElem 0 0) windowSpec twoOps 0 =
             ((- 2, None), twoOps(SliceElem 0 0 := ?s), 3)"
    by (simp add: rescheduleSucceeds_def countingCollaborators_def)
  have m: "time_Weekday (7 * Day) = Monday" "time_Weekday (8 * Day) = Tuesday"
    by (simp_all add: time_Weekday_def weekdayOf_def Day_eq)
  have s: "smallestShiftToAllowedDay Monday [Thursday] 3"
    "\<not> smallestShiftToAllowedDay Monday [Thursday] 1"
    by (simp_all add: smallestShiftToAllowedDay_def weekdayOf_def upt_rec)
  from u m s show ?thesis
    by (simp add: opA_def)
qed

subsection \<open>Execute on a non-empty list\<close>

lemma onQueue_Some:
  "dq p execID = Some q \<Longrightarrow> onQueue p execID m = Inr (p\<lparr>dq := (dq p)(execID \<mapsto> m q)\<rparr>)"
  by (simp add: onQueue_def)

lemma enqueueOperations_total:
  "dq p execID = Some q \<Longrightarrow> \<not> shuttingDown q \<Longrightarrow>
   \<exists>q' h' w'. enqueueOperations c execID strategySpec a var idxs p h w =
                 Inr (p\<lparr>dq := (dq p)(execID \<mapsto> q')\<rparr>, h', w') \<and>
               \<not> shuttingDown q' \<and>
               length (scheduled q') = length (scheduled q) + length idxs"
proof (induction idxs arbitrary: p q h w)
  case Nil
  then have "p\<lparr>dq := (dq p)(execID \<mapsto> q)\<rparr> = p"
    by (simp add: fun_upd_idem)
  with Nil have "enqueueOperations c execID strategySpec a var [] p h w =
                   Inr (p\<lparr>dq := (dq p)(execID \<mapsto> q)\<rparr>, h, w) \<and>
                 \<not> shuttingDown q \<and>
                 length (scheduled q) = length (scheduled q) + length ([] :: nat list)"
    by simp
  then show ?case by blast
next
  case (Cons i rest)
  obtain duration err h2 w2 where u:
    "updateMaintenanceWindow c p execID (var i) strategySpec (h(var i := h (SliceElem a i))) w
       = ((duration, err), h2, w2)"
    by (metis prod.exhaust)
  define q1 where "q1 = (case err of Some e \<Rightarrow> dq_AddAfter q (var i) (24 * Hour)
                          | None \<Rightarrow> dq_AddAfter q (SliceElem a i) duration)"
  define p1 where "p1 = p\<lparr>dq := (dq p)(execID \<mapsto> q1)\<rparr>"
  have q1: "\<not> shuttingDown q1" "length (scheduled q1) = Suc (length (scheduled q))"
    using Cons.prems(2) by (auto simp: q1_def dq_AddAfter_def split: option.splits)
  have p1: "dq p1 execID = Some q1"
    by (simp add: p1_def)
  have step: "enqueueOperations c execID strategySpec a var (i # rest) p h w =
                enqueueOperations c execID strategySpec a var rest p1 h2 w2"
    using u Cons.prems(1)
    by (simp add: handleRescheduleErrorOperation_def onQueue_Some p1_def q1_def
        split: option.splits)
  from Cons.IH [OF p1 q1(1), of h2 w2] obtain q' h' w' where
    r: "enqueueOperations c execID strategySpec a var rest p1 h2 w2 =
          Inr (p1\<lparr>dq := (dq p1)(execID \<mapsto> q')\<rparr>, h', w')"
      "\<not> shuttingDown q'" "length (scheduled q') = length (scheduled q1) + length rest"
    by blast
  have eq: "p1\<lparr>dq := (dq p1)(execID \<mapsto> q')\<rparr> = p\<lparr>dq := (dq p)(execID \<mapsto> q')\<rparr>"
    by (simp add: p1_def)
  have "enqueueOperations c execID strategySpec a var (i # rest) p h w =
          Inr (p\<lparr>dq := (dq p)(execID \<mapsto> q')\<rparr>, h', w')"
    using step r(1) eq by (simp only:)
  moreover have "length (scheduled q') = length (scheduled q) + length (i # rest)"
    using r(3) q1(2) by simp
  ultimately show ?case using r(2) by blast
qed

lemma createWorkers_total:
  "wg p execID = Some n \<Longrightarrow>
   createWorkers k p execID = Inr (p\<lparr>wg := (wg p)(execID \<mapsto> n + k)\<rparr>)"
proof (induction k arbitrary: p n)
  case 0
  then show ?case by (simp add: fun_upd_idem)
next
  case (Suc k)
  let ?p1 = "p\<lparr>wg := (wg p)(execID \<mapsto> n + 1)\<rparr>"
  have "createWorkers (Suc k) p execID = createWorkers k ?p1 execID"
    using Suc.prems by (simp add: createWorker_def)
  also have "\<dots> = Inr (?p1\<lparr>wg := (wg ?p1)(execID \<mapsto> n + 1 + k)\<rparr>)"
    by (rule Suc.IH) simp
  also have "?p1\<lparr>wg := (wg ?p1)(execID \<mapsto> n + 1 + k)\<rparr> =
               p\<lparr>wg := (wg p)(execID \<mapsto> n + Suc k)\<rparr>"
    by simp
  finally show ?case .
qed

text \<open>
  What holds of \<^verbatim>\<open>Execute\<close> on every non-empty list: it returns the execution ID drawn
  from the UUID generator and a nil error, the counter is the number of operations, the
  wait-group counts the workers, and the queue has received one entry per operation.
\<close>

lemma Execute_nonempty:
  assumes "0 < count operations" and "uuid_New c w = (execID, w1)"
  shows "\<exists>q' h' w'.
           Execute c operations strategySpec p h w =
             Inr ((execID, None),
                  p\<lparr>processingNum := (processingNum p)(execID \<mapsto> int (count operations)),
                    wg := (wg p)(execID \<mapsto> nat (Workers strategySpec)),
                    dq := (dq p)(execID \<mapsto> q')\<rparr>, h', w') \<and>
           length (scheduled q') = count operations"
proof -
  let ?p3 = "p\<lparr>processingNum := (processingNum p)(execID \<mapsto> int (count operations)),
               wg := (wg p)(execID \<mapsto> 0), dq := (dq p)(execID \<mapsto> NewDelayingQueue)\<rparr>"
  have d: "dq ?p3 execID = Some NewDelayingQueue" by simp
  have n: "\<not> shuttingDown NewDelayingQueue" by (simp add: NewDelayingQueue_def)
  from enqueueOperations_total [OF d n, of c strategySpec "array operations"
      "\<lambda>i. RangeVar execID 0" "[0 ..< count operations]" h w1]
  obtain q' h' w' where
    e: "enqueueOperations c execID strategySpec (array operations) (\<lambda>i. RangeVar execID 0)
          [0 ..< count operations] ?p3 h w1 = Inr (?p3\<lparr>dq := (dq ?p3)(execID \<mapsto> q')\<rparr>, h', w')"
      and l: "length (scheduled q') = count operations"
    by (auto simp: NewDelayingQueue_def)
  have g: "wg (?p3\<lparr>dq := (dq ?p3)(execID \<mapsto> q')\<rparr>) execID = Some 0" by simp
  have "Execute c operations strategySpec p h w =
          Inr ((execID, None),
               p\<lparr>processingNum := (processingNum p)(execID \<mapsto> int (count operations)),
                 wg := (wg p)(execID \<mapsto> nat (Workers strategySpec)),
                 dq := (dq p)(execID \<mapsto> q')\<rparr>, h', w')"
    using assms e createWorkers_total [OF g, of "nat (Workers strategySpec)"]
    by (simp add: Execute_def)
  with l show ?thesis by blast
qed

lemma Execute_rescheduleDelay:
  assumes "Execute c operations strategySpec p h w = Inr (res, p', h', w')"
  shows "rescheduleDelay p' = rescheduleDelay p"
proof (cases "count operations = 0")
  case True
  with assms show ?thesis by (simp add: Execute_def)
next
  case False
  obtain execID w1 where "uuid_New c w = (execID, w1)"
    by (cases "uuid_New c w") blast
  from Execute_nonempty [OF _ this, of operations strategySpec p h] False assms
  show ?thesis by auto
qed

text \<open>
  Claim C3, as the code has it. Operation \<open>A\<close> comes first and its reschedule fails;
  operation \<open>B\<close> follows. \<^verbatim>\<open>Execute\<close> returns an execution ID and a nil error, the
  counter is 2 and the queue has two entries, one of them with the delay of 24 hours. But
  that entry is the address of the loop variable, which holds a copy of \<open>B\<close> once the loop
  has moved on: both entries of the queue lead to operation \<open>B\<close> and none to \<open>A\<close>, so
  the operation whose reschedule failed is dropped from the execution.
\<close>

theorem Execute_reschedule_error_aliases:
  "(case Execute rescheduleFailsForA \<lparr>array = 0, count = 2\<rparr> windowSpec
           (NewParallelOrchestrationStrategy 0) twoOps 0 of
      Inl f \<Rightarrow> False
    | Inr ((execID, err), p, h, w) \<Rightarrow>
        execID = ''exec'' \<and> err = None \<and> processingNum p ''exec'' = Some 2 \<and>
        map fst (scheduled (the (dq p ''exec''))) = [RangeVar ''exec'' 0, SliceElem 0 1] \<and>
        map snd (scheduled (the (dq p ''exec''))) = [24 * Hour, Day - 3] \<and>
        map (\<lambda>(a, d). ID (h a)) (scheduled (the (dq p ''exec''))) = [''B'', ''B''])"
  by code_simp

text \<open>
  With a loop variable per iteration the same call keeps both operations.
\<close>

lemma Execute_perIteration_keeps_both:
  "(case Execute_perIteration rescheduleFailsForA \<lparr>array = 0, count = 2\<rparr> windowSpec
           (NewParallelOrchestrationStrategy 0) twoOps 0 of
      Inl f \<Rightarrow> False
    | Inr ((execID, err), p, h, w) \<Rightarrow>
        map (\<lambda>(a, d). ID (h a)) (scheduled (the (dq p ''exec''))) = [''A'', ''B''])"
  by code_simp

subsection \<open>The retry endpoint\<close>

text \<open>
  What the handler does on its own, whatever the retry methods are: once the retry method
  has returned without error and with no operation accepted, the handler answers 202 and
  hands on the response of the retryer as it stands; it writes no message into it.
\<close>

lemma retryOrchestrationByID_relays:
  assumes "contentType r = ''application/x-www-form-urlencoded''"
    and "(case form r of None \<Rightarrow> Inr [] | Some (Inl e) \<Rightarrow> Inl e | Some (Inr ids) \<Rightarrow> Inr ids)
           = Inr operationIDs"
    and "orchestrations_GetByID d (orchestration_id r) s = (Inr orch, s1)"
    and "(Type orch = UpgradeKymaOrchestration \<and>
          ListUpgradeKymaOperationsByOrchestrationID d (OrchestrationID orch)
            [Failed, InProgress] s1 = (Inr allOps, s2) \<and>
          kymaUpgradeRetry d orch allOps operationIDs (rt\<lparr>queue := Some kymaQueue\<rparr>) s2
            = ((None, rt2), s3)) \<or>
         (Type orch = UpgradeClusterOrchestration \<and>
          ListUpgradeClusterOperationsByOrchestrationID d (OrchestrationID orch)
            [Failed, InProgress] s1 = (Inr allOps, s2) \<and>
          clusterUpgradeRetry d orch allOps operationIDs (rt\<lparr>queue := Some clusterQueue\<rparr>) s2
            = ((None, rt2), s3))"
    and "RetryOperations (resp rt2) = []"
  shows "retryOrchestrationByID d rt r s = ((202, RetryBody (resp rt2)), rt2, s3)"
  using assms
  by (auto simp: retryOrchestrationByID_def StatusAccepted_def)

lemma upgradeRetry_nothing_eligible:
  "eligibleOperations opID candidates operationIDs = [] \<Longrightarrow>
   upgradeRetry info opID requeue orch candidates operationIDs rt s =
     ((None, rt\<lparr>resp := \<lparr>RetryOperations = [], Msg = info\<rparr>\<rparr>), s)"
  by (simp add: upgradeRetry_def)

text \<open>
  Claim C8. The retry methods are those of the spec, with \<open>info\<close> their informational
  message. For every retry request that reaches them (form content type, a form that
  parses, an orchestration that is found and is of one of the two known types, candidate
  operations listed without error) and for which no operation ends up accepted (none of
  the candidates is among the operation IDs supplied, or there is no candidate), the
  endpoint responds with status 202, and the body carries an empty list of accepted
  operations and the informational message; the storage is left as the listing left it.
\<close>

theorem retry_nothing_accepted:
  assumes "contentType r = ''application/x-www-form-urlencoded''"
    and "(case form r of None \<Rightarrow> Inr [] | Some (Inl e) \<Rightarrow> Inl e | Some (Inr ids) \<Rightarrow> Inr ids)
           = Inr operationIDs"
    and "orchestrations_GetByID d (orchestration_id r) s = (Inr orch, s1)"
    and "(Type orch = UpgradeKymaOrchestration \<and>
          ListUpgradeKymaOperationsByOrchestrationID d (OrchestrationID orch)
            [Failed, InProgress] s1 = (Inr allOps, s2)) \<or>
         (Type orch = UpgradeClusterOrchestration \<and>
          ListUpgradeClusterOperationsByOrchestrationID d (OrchestrationID orch)
            [Failed, InProgress] s1 = (Inr allOps, s2))"
    and "kymaUpgradeRetry d = upgradeRetry info opID requeue"
    and "clusterUpgradeRetry d = upgradeRetry info opID requeue"
    and "eligibleOperations opID allOps operationIDs = []"
    and "info \<noteq> []"
  shows "\<exists>rt'. retryOrchestrationByID d rt r s =
                 ((202, RetryBody \<lparr>RetryOperations = [], Msg = info\<rparr>), rt', s2) \<and>
               resp rt' = \<lparr>RetryOperations = [], Msg = info\<rparr> \<and>
               Msg (resp rt') \<noteq> []"
proof -
  from assms(4) show ?thesis
  proof
    assume k: "Type orch = UpgradeKymaOrchestration \<and>
          ListUpgradeKymaOperationsByOrchestrationID d (OrchestrationID orch)
            [Failed, InProgress] s1 = (Inr allOps, s2)"
    let ?rt2 = "rt\<lparr>queue := Some kymaQueue, resp := \<lparr>RetryOperations = [], Msg = info\<rparr>\<rparr>"
    have u: "kymaUpgradeRetry d orch allOps operationIDs (rt\<lparr>queue := Some kymaQueue\<rparr>) s2
               = ((None, ?rt2), s2)"
      using assms(5) upgradeRetry_nothing_eligible [OF assms(7)] by simp
    have e: "RetryOperations (resp ?rt2) = []" by simp
    from k u have c: "(Type orch = UpgradeKymaOrchestration \<and>
          ListUpgradeKymaOperationsByOrchestrationID d (OrchestrationID orch)
            [Failed, InProgress] s1 = (Inr allOps, s2) \<and>
          kymaUpgradeRetry d orch allOps operationIDs (rt\<lparr>queue := Some kymaQueue\<rparr>) s2
            = ((None, ?rt2), s2)) \<or>
         (Type orch = UpgradeClusterOrchestration \<and>
          ListUpgradeClusterOperationsByOrchestrationID d (OrchestrationID orch)
            [Failed, InProgress] s1 = (Inr allOps, s2) \<and>
          clusterUpgradeRetry d orch allOps operationIDs (rt\<lparr>queue := Some clusterQueue\<rparr>) s2
            = ((None, ?rt2), s2))"
      by blast
    have "retryOrchestrationByID d rt r s = ((202, RetryBody (resp ?rt2)), ?rt2, s2)"
      by (rule retryOrchestrationByID_relays [OF assms(1) assms(2) assms(3) c e])
    with assms(8) show ?thesis by simp
  next
    assume k: "Type orch = UpgradeClusterOrchestration \<and>
          ListUpgradeClusterOperationsByOrchestrationID d (OrchestrationID orch)
            [Failed, InProgress] s1 = (Inr allOps, s2)"
    let ?rt2 = "rt\<lparr>queue := Some clusterQueue, resp := \<lparr>RetryOperations = [], Msg = info\<rparr>\<rparr>"
    have u: "clusterUpgradeRetry d orch allOps operationIDs (rt\<lparr>queue := Some clusterQueue\<rparr>) s2
               = ((None, ?rt2), s2)"
      using assms(6) upgradeRetry_nothing_eligible [OF assms(7)] by simp
    have e: "RetryOperations (resp ?rt2) = []" by simp
    from k u have c: "(Type orch = UpgradeKymaOrchestration \<and>
          ListUpgradeKymaOperationsByOrchestrationID d (OrchestrationID orch)
            [Failed, InProgress] s1 = (Inr allOps, s2) \<and>
          kymaUpgradeRetry d orch allOps operationIDs (rt\<lparr>queue := Some kymaQueue\<rparr>) s2
            = ((None, ?rt2), s2)) \<or>
         (Type orch = UpgradeClusterOrchestration \<and>
          ListUpgradeClusterOperationsByOrchestrationID d (OrchestrationID orch)
            [Failed, InProgress] s1 = (Inr allOps, s2) \<and>
          clusterUpgradeRetry d orch allOps operationIDs (rt\<lparr>queue := Some clusterQueue\<rparr>) s2
            = ((None, ?rt2), s2))"
      by blast
    have "retryOrchestrationByID d rt r s = ((202, RetryBody (resp ?rt2)), ?rt2, s2)"
      by (rule retryOrchestrationByID_relays [OF assms(1) assms(2) assms(3) c e])
    with assms(8) show ?thesis by simp
  qed
qed

theorem retry_nothing_accepted_witness:
  "retryOrchestrationByID oneCandidate freshRetryer retryOp9 [] =
     ((202, RetryBody \<lparr>RetryOperations = [], Msg = ''nothing to retry''\<rparr>),
      \<lparr>queue = Some kymaQueue, resp = \<lparr>RetryOperations = [], Msg = ''nothing to retry''\<rparr>\<rparr>,
      [])"
proof -
  let ?orch = "\<lparr>OrchestrationID = ''o1'', Type = UpgradeKymaOrchestration\<rparr>"
  let ?retry = "upgradeRetry ''nothing to retry'' (\<lambda>op. op)
                  (\<lambda>q op s. s @ [(q, op)]) ::
                Orchestration \<Rightarrow> string list \<Rightarrow> string list \<Rightarrow> Retryer
                  \<Rightarrow> (ProcessQueue option \<times> string) list
                  \<Rightarrow> (error option \<times> Retryer) \<times> (ProcessQueue option \<times> string) list"
  have 1: "contentType retryOp9 = ''application/x-www-form-urlencoded''"
    by (simp add: retryOp9_def)
  have 2: "(case form retryOp9 of None \<Rightarrow> Inr [] | Some (Inl e) \<Rightarrow> Inl e
            | Some (Inr ids) \<Rightarrow> Inr ids) = Inr [''op9'']"
    by (simp add: retryOp9_def)
  have 3: "orchestrations_GetByID oneCandidate (orchestration_id retryOp9) [] = (Inr ?orch, [])"
    by (simp add: oneCandidate_def retryOp9_def)
  have 4: "(Type ?orch = UpgradeKymaOrchestration \<and>
            ListUpgradeKymaOperationsByOrchestrationID oneCandidate (OrchestrationID ?orch)
              [Failed, InProgress] [] = (Inr [''op1''], [])) \<or>
           (Type ?orch = UpgradeClusterOrchestration \<and>
            ListUpgradeClusterOperationsByOrchestrationID oneCandidate (OrchestrationID ?orch)
              [Failed, InProgress] [] = (Inr [''op1''], []))"
    by (simp add: oneCandidate_def)
  have 5: "kymaUpgradeRetry oneCandidate = ?retry"
    by (simp add: oneCandidate_def)
  have 6: "clusterUpgradeRetry oneCandidate = ?retry"
    by (simp add: oneCandidate_def)
  have 7: "eligibleOperations (\<lambda>op. op) [''op1''] [''op9''] = []"
    by (simp add: eligibleOperations_def)
  have 8: "''nothing to retry'' \<noteq> []"
    by simp
  from retry_nothing_accepted [where r = retryOp9 and d = oneCandidate and s = "[]"
      and orch = ?orch and ?s1.0 = "[]" and allOps = "[''op1'']" and ?s2.0 = "[]"
      and operationIDs = "[''op9'']" and rt = freshRetryer and info = "''nothing to retry''"
      and opID = "\<lambda>op. op" and requeue = "\<lambda>q op s. s @ [(q, op)]",
      OF 1 2 3 4 5 6 7 8]
  obtain rt' where
    r: "retryOrchestrationByID oneCandidate freshRetryer retryOp9 [] =
          ((202, RetryBody \<lparr>RetryOperations = [], Msg = ''nothing to retry''\<rparr>), rt', [])"
    by blast
  have "snd (retryOrchestrationByID oneCandidate freshRetryer retryOp9 []) =
          (\<lparr>queue = Some kymaQueue,
            resp = \<lparr>RetryOperations = [], Msg = ''nothing to retry''\<rparr>\<rparr>, [])"
    by (simp add: retryOrchestrationByID_def oneCandidate_def retryOp9_def freshRetryer_def
        upgradeRetry_def eligibleOperations_def)
  with r show ?thesis by simp
qed

end
